theory Spec2Isabelle
  imports Main "HOL-Library.Sublist"
begin

section \<open>The USDT sender form: data model\<close>

text \<open>
  The repository is one React component, \<^verbatim>\<open>src/components/USDTSender.tsx\<close>.
  Its state is a record of six strings (\<^verbatim>\<open>formData\<close>) and a boolean
  (\<^verbatim>\<open>isLoading\<close>); its operations are \<^verbatim>\<open>handleInputChange\<close>,
  \<^verbatim>\<open>handleSubmit\<close> and the submit button of the rendered form.

  The spec renames the fields: network is \<^verbatim>\<open>chain\<close>, rpcEndpoint is
  \<^verbatim>\<open>rpcUrl\<close>, apiCredential is \<^verbatim>\<open>apiKey\<close>, signingSecret is
  \<^verbatim>\<open>privateKey\<close>, recipientAddress is \<^verbatim>\<open>toAddress\<close>. The model keeps
  the names of the source.

  Strings are byte lists; a character outside ASCII is written as its UTF-8 bytes. The only
  test the source makes on a user string is emptiness and equality with an ASCII literal,
  which do not depend on the encoding.
\<close>

text \<open>\<^verbatim>\<open>interface FormData\<close>, lines 10-17.\<close>

record FormData =
  chain :: string
  rpcUrl :: string
  apiKey :: string
  privateKey :: string
  toAddress :: string
  amount :: string

text \<open>\<^verbatim>\<open>keyof FormData\<close>, the first argument of \<^verbatim>\<open>handleInputChange\<close>.\<close>

datatype field = Chain | RpcUrl | ApiKey | PrivateKey | ToAddress | Amount

text \<open>The argument of \<^verbatim>\<open>toast\<close>: a title, a description and a variant.\<close>

datatype variant = Default | Destructive

record toast_args =
  title :: string
  description :: string
  variant :: variant

text \<open>The two pieces of state of the component, lines 21-29.\<close>

record component =
  formData :: FormData
  isLoading :: bool

text \<open>The initial values given to \<^verbatim>\<open>useState\<close>; also the value of the reset, lines 81-88.\<close>

definition emptyForm :: FormData where
  "emptyForm = \<lparr>chain = [], rpcUrl = [], apiKey = [], privateKey = [], toAddress = [], amount = []\<rparr>"

definition mount :: component where
  "mount = \<lparr>formData = emptyForm, isLoading = False\<rparr>"

section \<open>Editing a field\<close>

text \<open>Reading a field by its key, \<^verbatim>\<open>formData[field]\<close>.\<close>

fun get_field :: "field \<Rightarrow> FormData \<Rightarrow> string" where
  "get_field Chain d = chain d"
| "get_field RpcUrl d = rpcUrl d"
| "get_field ApiKey d = apiKey d"
| "get_field PrivateKey d = privateKey d"
| "get_field ToAddress d = toAddress d"
| "get_field Amount d = amount d"

text \<open>The object spread with a computed key, \<^verbatim>\<open>{ ...prev, [field]: value }\<close>.\<close>

fun set_field :: "field \<Rightarrow> string \<Rightarrow> FormData \<Rightarrow> FormData" where
  "set_field Chain v prev = prev\<lparr>chain := v\<rparr>"
| "set_field RpcUrl v prev = prev\<lparr>rpcUrl := v\<rparr>"
| "set_field ApiKey v prev = prev\<lparr>apiKey := v\<rparr>"
| "set_field PrivateKey v prev = prev\<lparr>privateKey := v\<rparr>"
| "set_field ToAddress v prev = prev\<lparr>toAddress := v\<rparr>"
| "set_field Amount v prev = prev\<lparr>amount := v\<rparr>"

text \<open>
  \<^verbatim>\<open>handleInputChange\<close>, lines 31-33: \<^verbatim>\<open>setFormData(prev => ({ ...prev, [field]: value }))\<close>.
  The updater is applied to the current form data; nothing else is written.
\<close>

definition handleInputChange :: "field \<Rightarrow> string \<Rightarrow> component \<Rightarrow> component" where
  "handleInputChange fld v s = s\<lparr>formData := set_field fld v (formData s)\<rparr>"

section \<open>Submitting\<close>

text \<open>
  What \<^verbatim>\<open>handleSubmit\<close> does to the outside, in the order in which it does it:
  the call of \<^verbatim>\<open>e.preventDefault\<close>, the calls of the two state setters and the
  calls of \<^verbatim>\<open>toast\<close>.
\<close>

datatype effect =
    PreventDefault
  | SetIsLoading bool
  | Toast toast_args
  | SetFormData FormData

text \<open>The JavaScript \<^verbatim>\<open>!s\<close> on a value of type string: only the empty string is falsy.\<close>

definition not_str :: "string \<Rightarrow> bool" where
  "not_str s = (s = [])"

text \<open>The four notifications of the source, lines 41-45, 51-55, 61-65 and 90-94.\<close>

definition missing_fields :: toast_args where
  "missing_fields = \<lparr>title = ''Missing fields'',
     description = ''Please fill in all required fields'', variant = Destructive\<rparr>"

definition rpc_url_required :: toast_args where
  "rpc_url_required = \<lparr>title = ''RPC URL required'',
     description = ''Please provide an EVM RPC URL'', variant = Destructive\<rparr>"

definition api_key_required :: toast_args where
  "api_key_required = \<lparr>title = ''API Key required'',
     description = ''Please provide a TronGrid API key'', variant = Destructive\<rparr>"

definition transaction_failed :: toast_args where
  "transaction_failed = \<lparr>title = ''Transaction Failed'',
     description = ''Please check your inputs and try again'', variant = Destructive\<rparr>"

text \<open>
  The success notification, lines 74-78. The title ends with the check mark U+2705, here its
  three UTF-8 bytes; the description is the template literal
  \<^verbatim>\<open>`Successfully sent ${formData.amount} USDT on ${formData.chain}`\<close>.
\<close>

definition transaction_sent :: "FormData \<Rightarrow> toast_args" where
  "transaction_sent fd = \<lparr>title = ''Transaction Sent! '' @ [CHR 0xE2, CHR 0x9C, CHR 0x85],
     description = ''Successfully sent '' @ amount fd @ '' USDT on '' @ chain fd,
     variant = Default\<rparr>"

text \<open>
  A suspended call of \<^verbatim>\<open>handleSubmit\<close>: it waits at the \<^verbatim>\<open>await\<close> of line 72
  for the timer of \<^verbatim>\<open>delay_ms\<close> milliseconds, and it holds the \<^verbatim>\<open>formData\<close> of
  the render in which it was called (the closure), which later edits do not change.
\<close>

record suspended =
  delay_ms :: nat
  captured :: FormData

text \<open>
  \<^verbatim>\<open>handleSubmit\<close> up to its first suspension point, lines 35-72: the effects made in the
  event handler itself, and the suspended rest when validation passed. The three early
  returns are the three \<open>None\<close> branches.
\<close>

definition handleSubmit :: "FormData \<Rightarrow> effect list \<times> suspended option" where
  "handleSubmit fd =
     (if not_str (chain fd) \<or> not_str (toAddress fd) \<or> not_str (amount fd) \<or> not_str (privateKey fd)
      then ([PreventDefault, SetIsLoading True, Toast missing_fields, SetIsLoading False], None)
      else if chain fd = ''EVM'' \<and> not_str (rpcUrl fd)
      then ([PreventDefault, SetIsLoading True, Toast rpc_url_required, SetIsLoading False], None)
      else if chain fd = ''TRON'' \<and> not_str (apiKey fd)
      then ([PreventDefault, SetIsLoading True, Toast api_key_required, SetIsLoading False], None)
      else ([PreventDefault, SetIsLoading True], Some \<lparr>delay_ms = 2000, captured = fd\<rparr>))"

text \<open>The calls of \<^verbatim>\<open>toast\<close> among a list of effects.\<close>

fun toasts :: "effect list \<Rightarrow> toast_args list" where
  "toasts [] = []"
| "toasts (Toast t # es) = t # toasts es"
| "toasts (e # es) = toasts es"

section \<open>After the delay\<close>

text \<open>
  The three statements of the \<^verbatim>\<open>try\<close> block, lines 72-88: the \<^verbatim>\<open>await\<close> of the
  timer, the success notification and the reset of the form.
\<close>

datatype step = AwaitTimeout | ToastSent | ResetForm

text \<open>
  What a statement of the \<^verbatim>\<open>try\<close> block does when it returns normally. The success
  message is built from the captured \<^verbatim>\<open>formData\<close>.
\<close>

fun step_effects :: "FormData \<Rightarrow> step \<Rightarrow> effect list" where
  "step_effects fd AwaitTimeout = []"
| "step_effects fd ToastSent = [Toast (transaction_sent fd)]"
| "step_effects fd ResetForm = [SetFormData emptyForm]"

text \<open>
  The \<^verbatim>\<open>try\<close> block run statement by statement. As written, none of its statements
  throws (the promise is only ever resolved); to say what the \<^verbatim>\<open>catch\<close> and
  \<^verbatim>\<open>finally\<close> clauses do, the model takes as a parameter the statement that throws,
  if one does. A statement that throws has no effect of its own and ends the block. The
  result is the effects made and whether the block threw.
\<close>

fun try_body :: "step option \<Rightarrow> FormData \<Rightarrow> step list \<Rightarrow> effect list \<times> bool" where
  "try_body fault fd [] = ([], False)"
| "try_body fault fd (st # rest) =
     (if fault = Some st then ([], True)
      else (step_effects fd st @ fst (try_body fault fd rest), snd (try_body fault fd rest)))"

text \<open>
  The rest of \<^verbatim>\<open>handleSubmit\<close> from its suspension point, lines 71-97: the
  \<^verbatim>\<open>try\<close> block, the \<^verbatim>\<open>catch\<close> clause when the block threw, and the
  \<^verbatim>\<open>finally\<close> clause in every case.
\<close>

definition resume :: "step option \<Rightarrow> suspended \<Rightarrow> effect list" where
  "resume fault k =
     (case try_body fault (captured k) [AwaitTimeout, ToastSent, ResetForm] of
        (es, threw) \<Rightarrow>
          es @ (if threw then [Toast transaction_failed] else []) @ [SetIsLoading False])"

text \<open>One whole submission attempt with nothing else happening during the delay.\<close>

definition attempt :: "step option \<Rightarrow> FormData \<Rightarrow> effect list" where
  "attempt fault fd =
     (case handleSubmit fd of
        (es, None) \<Rightarrow> es
      | (es, Some k) \<Rightarrow> es @ resume fault k)"

section \<open>Effects on the state of the component\<close>

fun apply_effect :: "effect \<Rightarrow> component \<Rightarrow> component" where
  "apply_effect PreventDefault s = s"
| "apply_effect (SetIsLoading b) s = s\<lparr>isLoading := b\<rparr>"
| "apply_effect (Toast t) s = s"
| "apply_effect (SetFormData fd) s = s\<lparr>formData := fd\<rparr>"

fun apply_effects :: "effect list \<Rightarrow> component \<Rightarrow> component" where
  "apply_effects [] s = s"
| "apply_effects (e # es) s = apply_effects es (apply_effect e s)"

text \<open>
  The states the component holds in the course of one attempt. A call of a state setter does
  not change the state at once: React queues the calls made in one run of the handler and
  applies them, in order, when the run gives control back. So the component holds one state
  when the event handler has returned or suspended, and, if it suspended, one more when the
  resumed rest has finished. The value that \<^verbatim>\<open>setIsLoading(true)\<close> of line 37 passes
  is a state of the component only if no later call of the same run replaces it.
\<close>

definition held_states :: "step option \<Rightarrow> FormData \<Rightarrow> component \<Rightarrow> component list" where
  "held_states fault fd s =
     (case handleSubmit fd of
        (es, None) \<Rightarrow> [apply_effects es s]
      | (es, Some k) \<Rightarrow>
          [apply_effects es s, apply_effects (resume fault k) (apply_effects es s)])"

section \<open>The rendered form as an event system\<close>

text \<open>
  The events of the form: an input changes (\<^verbatim>\<open>onChange\<close>, \<^verbatim>\<open>onValueChange\<close>), the user
  activates the submit button, and the timer of a suspended submission fires (with the
  statement of the \<^verbatim>\<open>try\<close> block that throws, if one does).
\<close>

datatype event = Edit field string | Submit | TimerFires "step option"

text \<open>The component together with the calls of \<^verbatim>\<open>handleSubmit\<close> waiting for their timer.\<close>

record system =
  comp :: component
  pending :: "suspended list"

definition start :: system where
  "start = \<lparr>comp = mount, pending = []\<rparr>"

text \<open>The attribute \<^verbatim>\<open>disabled={isLoading}\<close> of the submit button, line 231.\<close>

definition submit_disabled :: "component \<Rightarrow> bool" where
  "submit_disabled s = isLoading s"

text \<open>
  One event: the new system and the notifications shown. A disabled submit button submits
  nothing; an enabled one calls \<^verbatim>\<open>handleSubmit\<close> with the current form data.
  \<^verbatim>\<open>handleSubmit\<close> itself does not test \<^verbatim>\<open>isLoading\<close>: the attribute of the button
  is the only gate. A timer resumes the oldest suspended call.
\<close>

fun dispatch :: "event \<Rightarrow> system \<Rightarrow> system \<times> toast_args list" where
  "dispatch (Edit fld v) sys = (sys\<lparr>comp := handleInputChange fld v (comp sys)\<rparr>, [])"
| "dispatch Submit sys =
     (if submit_disabled (comp sys) then (sys, [])
      else (case handleSubmit (formData (comp sys)) of
              (es, k) \<Rightarrow>
                (\<lparr>comp = apply_effects es (comp sys),
                  pending = pending sys @ (case k of None \<Rightarrow> [] | Some x \<Rightarrow> [x])\<rparr>,
                 toasts es)))"
| "dispatch (TimerFires fault) sys =
     (case pending sys of
        [] \<Rightarrow> (sys, [])
      | k # ks \<Rightarrow>
          (\<lparr>comp = apply_effects (resume fault k) (comp sys), pending = ks\<rparr>,
           toasts (resume fault k)))"

fun run :: "event list \<Rightarrow> system \<Rightarrow> system \<times> toast_args list" where
  "run [] sys = (sys, [])"
| "run (ev # evs) sys =
     (case dispatch ev sys of
        (sys', ts) \<Rightarrow> (case run evs sys' of (sys'', ts') \<Rightarrow> (sys'', ts @ ts')))"

text \<open>
  At most one call of \<^verbatim>\<open>handleSubmit\<close> is suspended, and the loading flag is true while
  one is.
\<close>

definition one_in_flight :: "system \<Rightarrow> bool" where
  "one_in_flight sys = (pending sys = [] \<or> (length (pending sys) = 1 \<and> isLoading (comp sys)))"

text \<open>
  The two conditional requirements: the guard under which line 50 tests \<^verbatim>\<open>rpcUrl\<close> and
  line 173 renders its input, and the guard under which line 60 tests \<^verbatim>\<open>apiKey\<close> and
  line 185 renders its input.
\<close>

definition rpcUrl_required :: "FormData \<Rightarrow> bool" where
  "rpcUrl_required fd = (chain fd = ''EVM'')"

definition apiKey_required :: "FormData \<Rightarrow> bool" where
  "apiKey_required fd = (chain fd = ''TRON'')"

section \<open>The validator as the specification words it\<close>

datatype rejection = MissingFields | RpcUrlRequired | ApiKeyRequired

text \<open>
  The four rules of the specification's validator, in its order; \<open>None\<close> is acceptance.
  This definition follows the specification, not the source; it is compared with
  \<open>handleSubmit\<close> below.
\<close>

definition spec_validate :: "FormData \<Rightarrow> rejection option" where
  "spec_validate d =
     (if chain d = [] \<or> toAddress d = [] \<or> amount d = [] \<or> privateKey d = [] then Some MissingFields
      else if chain d = ''EVM'' \<and> rpcUrl d = [] then Some RpcUrlRequired
      else if chain d = ''TRON'' \<and> apiKey d = [] then Some ApiKeyRequired
      else None)"

fun rejection_toast :: "rejection \<Rightarrow> toast_args" where
  "rejection_toast MissingFields = missing_fields"
| "rejection_toast RpcUrlRequired = rpc_url_required"
| "rejection_toast ApiKeyRequired = api_key_required"

section \<open>Shared lemmas\<close>

lemma handleSubmit_toasts:
  "toasts (fst (handleSubmit d)) = (case spec_validate d of None \<Rightarrow> [] | Some r \<Rightarrow> [rejection_toast r])"
  by (simp add: handleSubmit_def spec_validate_def not_str_def)

lemma handleSubmit_accept:
  "spec_validate d = None \<Longrightarrow>
   handleSubmit d = ([PreventDefault, SetIsLoading True], Some \<lparr>delay_ms = 2000, captured = d\<rparr>)"
  by (simp add: handleSubmit_def spec_validate_def not_str_def split: if_splits)

lemma handleSubmit_reject:
  "spec_validate d = Some r \<Longrightarrow>
   handleSubmit d = ([PreventDefault, SetIsLoading True, Toast (rejection_toast r), SetIsLoading False], None)"
  by (auto simp add: handleSubmit_def spec_validate_def not_str_def split: if_splits)

lemma resume_None:
  "resume None k = [Toast (transaction_sent (captured k)), SetFormData emptyForm, SetIsLoading False]"
  by (simp add: resume_def)

lemma resume_Some:
  "resume (Some st) k =
     fst (try_body (Some st) (captured k) [AwaitTimeout, ToastSent, ResetForm])
       @ [Toast transaction_failed, SetIsLoading False]"
  by (cases st) (simp_all add: resume_def)

lemma apply_effects_append:
  "apply_effects (es @ fs) s = apply_effects fs (apply_effects es s)"
  by (induction es arbitrary: s) simp_all

lemma sent_description_amount: "sublist (amount d) (description (transaction_sent d))"
  unfolding sublist_def
  by (rule exI [of _ "''Successfully sent ''"], rule exI [of _ "'' USDT on '' @ chain d"])
     (simp add: transaction_sent_def)

lemma sent_description_chain: "sublist (chain d) (description (transaction_sent d))"
  unfolding sublist_def
  by (rule exI [of _ "''Successfully sent '' @ amount d @ '' USDT on ''"], rule exI [of _ "[]"])
     (simp add: transaction_sent_def)

section \<open>The validator\<close>



section \<open>Rejection for missing fields\<close>

text \<open>
  C2. For every draft with any of \<^verbatim>\<open>chain\<close>, \<^verbatim>\<open>toAddress\<close>, \<^verbatim>\<open>amount\<close>,
  \<^verbatim>\<open>privateKey\<close> empty, submission is rejected with the missing-fields message, of
  destructive severity, and the loading flag is never true during the attempt. The handler
  does call \<^verbatim>\<open>setIsLoading(true)\<close> before it validates, and \<^verbatim>\<open>setIsLoading(false)\<close>
  after the notification, in the same run; nothing is suspended, so the attempt is that one
  run, and the one state the component holds in its course has the flag false. In the event
  system: submitting such a draft with the control enabled makes the one notification and
  leaves the whole system, loading flag included, as it was.
\<close>

theorem C2_missing_fields_rejected:
  assumes "chain d = [] \<or> toAddress d = [] \<or> amount d = [] \<or> privateKey d = []"
  shows "handleSubmit d =
           ([PreventDefault, SetIsLoading True, Toast missing_fields, SetIsLoading False], None)
         \<and> attempt fault d =
           [PreventDefault, SetIsLoading True, Toast missing_fields, SetIsLoading False]
         \<and> toasts (attempt fault d) = [missing_fields]
         \<and> variant missing_fields = Destructive
         \<and> map isLoading (held_states fault d s) = [False]
         \<and> isLoading (apply_effects (attempt fault d) s) = False
         \<and> (\<forall>sys. formData (comp sys) = d \<and> \<not> isLoading (comp sys) \<longrightarrow>
               dispatch Submit sys = (sys, [missing_fields])
               \<and> run [Submit] sys = (sys, [missing_fields]))"
proof -
  have h: "handleSubmit d =
           ([PreventDefault, SetIsLoading True, Toast missing_fields, SetIsLoading False], None)"
    using assms by (simp add: handleSubmit_def not_str_def)
  then have a: "attempt fault d =
           [PreventDefault, SetIsLoading True, Toast missing_fields, SetIsLoading False]"
    by (simp add: attempt_def)
  have t: "toasts (attempt fault d) = [missing_fields]"
    by (simp add: a)
  have v: "variant missing_fields = Destructive"
    by (simp add: missing_fields_def)
  have hs: "map isLoading (held_states fault d s) = [False]"
    by (simp add: held_states_def h)
  have l: "isLoading (apply_effects (attempt fault d) s) = False"
    by (simp add: a)
  have ev: "\<forall>sys. formData (comp sys) = d \<and> \<not> isLoading (comp sys) \<longrightarrow>
               dispatch Submit sys = (sys, [missing_fields])
               \<and> run [Submit] sys = (sys, [missing_fields])"
  proof (intro allI impI)
    fix sys :: system
    assume p: "formData (comp sys) = d \<and> \<not> isLoading (comp sys)"
    then have c: "(comp sys)\<lparr>isLoading := False\<rparr> = comp sys"
      by simp
    have "dispatch Submit sys = (sys, [missing_fields])"
      using p by (simp add: submit_disabled_def h c)
    then show "dispatch Submit sys = (sys, [missing_fields])
               \<and> run [Submit] sys = (sys, [missing_fields])"
      by simp
  qed
  from h a t v hs l ev show ?thesis by blast
qed

theorem C2_missing_fields_rejected_witness:
  "run [Submit] start
     = (start, [\<lparr>title = ''Missing fields'', description = ''Please fill in all required fields'',
          variant = Destructive\<rparr>])
   \<and> map isLoading (held_states None emptyForm mount) = [False]"
proof -
  have e: "chain emptyForm = [] \<or> toAddress emptyForm = [] \<or> amount emptyForm = []
      \<or> privateKey emptyForm = []"
    by (simp add: emptyForm_def)
  have p: "formData (comp start) = emptyForm \<and> \<not> isLoading (comp start)"
    by (simp add: start_def mount_def)
  from C2_missing_fields_rejected [OF e, of None mount] p
  have "run [Submit] start = (start, [missing_fields])"
    and "map isLoading (held_states None emptyForm mount) = [False]"
    by blast+
  then show ?thesis
    by (simp add: missing_fields_def)
qed

section \<open>The success path\<close>

text \<open>
  C3. For every fully valid draft (\<^verbatim>\<open>chain\<close> is EVM with a nonempty \<^verbatim>\<open>rpcUrl\<close>, or
  TRON with a nonempty \<^verbatim>\<open>apiKey\<close>, and \<^verbatim>\<open>toAddress\<close>, \<^verbatim>\<open>amount\<close>,
  \<^verbatim>\<open>privateKey\<close> nonempty), when no statement throws: the handler sets loading to true and
  suspends for 2000 ms; after the delay it makes the success notification, whose
  description contains the amount and the chain of the submitted draft, then sets every
  field of the form to the empty string, then sets loading to false. The component holds
  the submitted draft with loading true during the delay, and the state of a freshly
  mounted component when the attempt has finished.
\<close>

theorem C3_success_path:
  assumes "(chain d = ''EVM'' \<and> rpcUrl d \<noteq> []) \<or> (chain d = ''TRON'' \<and> apiKey d \<noteq> [])"
    and "toAddress d \<noteq> []" and "amount d \<noteq> []" and "privateKey d \<noteq> []"
  shows "handleSubmit d = ([PreventDefault, SetIsLoading True], Some \<lparr>delay_ms = 2000, captured = d\<rparr>)
         \<and> resume None \<lparr>delay_ms = 2000, captured = d\<rparr> =
             [Toast (transaction_sent d), SetFormData emptyForm, SetIsLoading False]
         \<and> attempt None d =
             [PreventDefault, SetIsLoading True,
              Toast (transaction_sent d), SetFormData emptyForm, SetIsLoading False]
         \<and> variant (transaction_sent d) = Default
         \<and> sublist (amount d) (description (transaction_sent d))
         \<and> sublist (chain d) (description (transaction_sent d))
         \<and> (\<forall>fld. get_field fld emptyForm = [])
         \<and> held_states None d s = [s\<lparr>isLoading := True\<rparr>, mount]
         \<and> apply_effects (attempt None d) s = mount"
proof -
  have v: "spec_validate d = None"
    using assms by (auto simp add: spec_validate_def)
  have h: "handleSubmit d = ([PreventDefault, SetIsLoading True], Some \<lparr>delay_ms = 2000, captured = d\<rparr>)"
    by (rule handleSubmit_accept [OF v])
  have r: "resume None \<lparr>delay_ms = 2000, captured = d\<rparr> =
             [Toast (transaction_sent d), SetFormData emptyForm, SetIsLoading False]"
    by (simp add: resume_None)
  have a: "attempt None d =
             [PreventDefault, SetIsLoading True,
              Toast (transaction_sent d), SetFormData emptyForm, SetIsLoading False]"
    by (simp add: attempt_def h r)
  have g: "\<forall>fld. get_field fld emptyForm = []"
  proof
    fix fld show "get_field fld emptyForm = []"
      by (cases fld) (simp_all add: emptyForm_def)
  qed
  have st: "held_states None d s = [s\<lparr>isLoading := True\<rparr>, mount]"
    by (simp add: held_states_def h r mount_def)
  have fin: "apply_effects (attempt None d) s = mount"
    by (simp add: a mount_def)
  have va: "variant (transaction_sent d) = Default"
    by (simp add: transaction_sent_def)
  from h r a va sent_description_amount sent_description_chain g st fin
  show ?thesis by blast
qed

theorem C3_success_path_witness:
  "toasts (attempt None \<lparr>chain = ''EVM'', rpcUrl = ''https://x'', apiKey = [], privateKey = ''k'',
       toAddress = ''0xabc'', amount = ''10''\<rparr>)
     = [\<lparr>title = ''Transaction Sent! '' @ [CHR 0xE2, CHR 0x9C, CHR 0x85],
         description = ''Successfully sent 10 USDT on EVM'', variant = Default\<rparr>]
   \<and> held_states None \<lparr>chain = ''EVM'', rpcUrl = ''https://x'', apiKey = [],
       privateKey = ''k'', toAddress = ''0xabc'', amount = ''10''\<rparr>
       \<lparr>formData = \<lparr>chain = ''EVM'', rpcUrl = ''https://x'', apiKey = [],
          privateKey = ''k'', toAddress = ''0xabc'', amount = ''10''\<rparr>, isLoading = False\<rparr>
     = [\<lparr>formData = \<lparr>chain = ''EVM'', rpcUrl = ''https://x'', apiKey = [],
          privateKey = ''k'', toAddress = ''0xabc'', amount = ''10''\<rparr>, isLoading = True\<rparr>,
        mount]"
  using C3_success_path [of "\<lparr>chain = ''EVM'', rpcUrl = ''https://x'', apiKey = [],
       privateKey = ''k'', toAddress = ''0xabc'', amount = ''10''\<rparr>"
       "\<lparr>formData = \<lparr>chain = ''EVM'', rpcUrl = ''https://x'', apiKey = [],
          privateKey = ''k'', toAddress = ''0xabc'', amount = ''10''\<rparr>, isLoading = False\<rparr>"]
  by (simp add: transaction_sent_def mount_def)

text \<open>
  C10. For every draft whose \<^verbatim>\<open>chain\<close> is a nonempty string other than EVM and TRON and
  whose \<^verbatim>\<open>toAddress\<close>, \<^verbatim>\<open>amount\<close> and \<^verbatim>\<open>privateKey\<close> are nonempty, validation
  passes and the whole success path runs, whatever \<^verbatim>\<open>rpcUrl\<close> and \<^verbatim>\<open>apiKey\<close> hold
  (both may be empty): the handler does not check that \<^verbatim>\<open>chain\<close> is one of the two values
  the select offers.
\<close>

theorem C10_unlisted_network_accepted:
  assumes "chain d \<noteq> []" and "chain d \<noteq> ''EVM''" and "chain d \<noteq> ''TRON''"
    and "toAddress d \<noteq> []" and "amount d \<noteq> []" and "privateKey d \<noteq> []"
  shows "handleSubmit d = ([PreventDefault, SetIsLoading True], Some \<lparr>delay_ms = 2000, captured = d\<rparr>)
         \<and> attempt None d =
             [PreventDefault, SetIsLoading True,
              Toast (transaction_sent d), SetFormData emptyForm, SetIsLoading False]
         \<and> apply_effects (attempt None d) s = mount"
proof -
  have v: "spec_validate d = None"
    using assms by (simp add: spec_validate_def)
  have h: "handleSubmit d = ([PreventDefault, SetIsLoading True], Some \<lparr>delay_ms = 2000, captured = d\<rparr>)"
    by (rule handleSubmit_accept [OF v])
  have a: "attempt None d =
             [PreventDefault, SetIsLoading True,
              Toast (transaction_sent d), SetFormData emptyForm, SetIsLoading False]"
    by (simp add: attempt_def h resume_None)
  have "apply_effects (attempt None d) s = mount"
    by (simp add: a mount_def)
  with h a show ?thesis by simp
qed

theorem C10_unlisted_network_accepted_witness:
  "toasts (attempt None \<lparr>chain = ''BTC'', rpcUrl = [], apiKey = [], privateKey = ''k'',
       toAddress = ''0xabc'', amount = ''10''\<rparr>)
     = [\<lparr>title = ''Transaction Sent! '' @ [CHR 0xE2, CHR 0x9C, CHR 0x85],
         description = ''Successfully sent 10 USDT on BTC'', variant = Default\<rparr>]
   \<and> apply_effects (attempt None \<lparr>chain = ''BTC'', rpcUrl = [], apiKey = [], privateKey = ''k'',
       toAddress = ''0xabc'', amount = ''10''\<rparr>) \<lparr>formData = \<lparr>chain = ''BTC'', rpcUrl = [],
       apiKey = [], privateKey = ''k'', toAddress = ''0xabc'', amount = ''10''\<rparr>,
       isLoading = False\<rparr> = mount"
  using C10_unlisted_network_accepted [of "\<lparr>chain = ''BTC'', rpcUrl = [], apiKey = [],
       privateKey = ''k'', toAddress = ''0xabc'', amount = ''10''\<rparr>"
       "\<lparr>formData = \<lparr>chain = ''BTC'', rpcUrl = [],
       apiKey = [], privateKey = ''k'', toAddress = ''0xabc'', amount = ''10''\<rparr>,
       isLoading = False\<rparr>"]
  by (simp add: transaction_sent_def mount_def)

section \<open>Exceptions after validation\<close>

lemma toasts_append: "toasts (es @ fs) = toasts es @ toasts fs"
  by (induction es rule: toasts.induct) simp_all

lemma isLoading_after_last:
  "isLoading (apply_effects (es @ [SetIsLoading b]) s) = b"
  by (simp add: apply_effects_append)

lemma resume_ends: "\<exists>es. resume fault k = es @ [SetIsLoading False]"
  by (simp add: resume_def split: prod.splits)

lemma attempt_ends: "\<exists>es. attempt fault d = es @ [SetIsLoading False]"
proof (cases "spec_validate d")
  case None
  obtain es where "resume fault \<lparr>delay_ms = 2000, captured = d\<rparr> = es @ [SetIsLoading False]"
    using resume_ends by blast
  then have "attempt fault d = ([PreventDefault, SetIsLoading True] @ es) @ [SetIsLoading False]"
    by (simp add: attempt_def handleSubmit_accept [OF None])
  then show ?thesis by blast
next
  case (Some r)
  then have "attempt fault d
      = [PreventDefault, SetIsLoading True, Toast (rejection_toast r)] @ [SetIsLoading False]"
    by (simp add: attempt_def handleSubmit_reject)
  then show ?thesis by blast
qed

text \<open>
  C4. If a statement of the \<^verbatim>\<open>try\<close> block throws (the delay, the success notification
  or the reset), the effects of the rest of the handler are those of the statements that
  completed, then the notification \<^verbatim>\<open>Transaction Failed\<close>, of destructive severity,
  then the loading flag set to false. Whether or not a statement throws, the last effect of
  the resumed handler sets loading to false, and loading is false at the end of every
  whole attempt, rejected, successful or failed.
\<close>

theorem C4_exception_cleanup:
  "(fault = Some st \<longrightarrow>
      resume fault k =
        fst (try_body fault (captured k) [AwaitTimeout, ToastSent, ResetForm])
          @ [Toast transaction_failed, SetIsLoading False]
      \<and> transaction_failed \<in> set (toasts (resume fault k)))
   \<and> variant transaction_failed = Destructive
   \<and> last (resume fault k) = SetIsLoading False
   \<and> isLoading (apply_effects (resume fault k) s) = False
   \<and> isLoading (apply_effects (attempt fault d) s) = False"
proof -
  have one: "fault = Some st \<longrightarrow>
      resume fault k =
        fst (try_body fault (captured k) [AwaitTimeout, ToastSent, ResetForm])
          @ [Toast transaction_failed, SetIsLoading False]
      \<and> transaction_failed \<in> set (toasts (resume fault k))"
  proof
    assume f: "fault = Some st"
    have r: "resume fault k =
        fst (try_body fault (captured k) [AwaitTimeout, ToastSent, ResetForm])
          @ [Toast transaction_failed, SetIsLoading False]"
      unfolding f by (rule resume_Some)
    have "transaction_failed \<in> set (toasts (resume fault k))"
      by (subst r) (simp add: toasts_append)
    with r show "resume fault k =
        fst (try_body fault (captured k) [AwaitTimeout, ToastSent, ResetForm])
          @ [Toast transaction_failed, SetIsLoading False]
      \<and> transaction_failed \<in> set (toasts (resume fault k))"
      by simp
  qed
  have two: "variant transaction_failed = Destructive"
    by (simp add: transaction_failed_def)
  obtain es where es: "resume fault k = es @ [SetIsLoading False]"
    using resume_ends by blast
  have three: "last (resume fault k) = SetIsLoading False"
    by (simp add: es)
  have four: "isLoading (apply_effects (resume fault k) s) = False"
    by (simp only: es isLoading_after_last)
  obtain fs where fs: "attempt fault d = fs @ [SetIsLoading False]"
    using attempt_ends by blast
  have five: "isLoading (apply_effects (attempt fault d) s) = False"
    by (simp only: fs isLoading_after_last)
  from one two three four five show ?thesis by blast
qed

theorem C4_exception_cleanup_witness:
  "resume (Some ResetForm) \<lparr>delay_ms = 2000, captured = \<lparr>chain = ''TRON'', rpcUrl = [],
       apiKey = ''key'', privateKey = ''k'', toAddress = ''Tabc'', amount = ''10''\<rparr>\<rparr>
     = [Toast (transaction_sent \<lparr>chain = ''TRON'', rpcUrl = [],
       apiKey = ''key'', privateKey = ''k'', toAddress = ''Tabc'', amount = ''10''\<rparr>),
        Toast \<lparr>title = ''Transaction Failed'',
          description = ''Please check your inputs and try again'', variant = Destructive\<rparr>,
        SetIsLoading False]"
  using C4_exception_cleanup [of "Some ResetForm" ResetForm "\<lparr>delay_ms = 2000,
       captured = \<lparr>chain = ''TRON'', rpcUrl = [],
       apiKey = ''key'', privateKey = ''k'', toAddress = ''Tabc'', amount = ''10''\<rparr>\<rparr>"]
  by (simp add: transaction_failed_def)

section \<open>The draft across a failed submission\<close>

lemma formData_apply_reject:
  "formData (apply_effects [PreventDefault, SetIsLoading True, Toast t, SetIsLoading False] s)
     = formData s"
  by simp

lemma attempt_reject:
  "spec_validate d = Some r \<Longrightarrow>
   attempt fault d = [PreventDefault, SetIsLoading True, Toast (rejection_toast r), SetIsLoading False]"
  by (simp add: attempt_def handleSubmit_reject)

lemma attempt_accept:
  "spec_validate d = None \<Longrightarrow>
   attempt fault d = [PreventDefault, SetIsLoading True] @ resume fault \<lparr>delay_ms = 2000, captured = d\<rparr>"
  by (simp add: attempt_def handleSubmit_accept)

lemma formData_apply_resume_fault:
  "formData (apply_effects (resume (Some st) k) s) = formData s"
  by (cases st) (simp_all add: resume_def)

text \<open>
  C5. For every draft that fails validation, whatever the reason, the handler returns
  without suspending and the form data after the attempt, in the one state the component
  holds in its course, are the form data before it. Conversely, if a whole attempt changes the form data, then
  validation accepted the draft and no statement threw, and the form data are then the
  empty form: only a successful submission resets the draft.
\<close>

theorem C5_failed_validation_keeps_draft:
  "(spec_validate (formData s) = Some r \<longrightarrow>
      snd (handleSubmit (formData s)) = None
      \<and> formData (apply_effects (attempt fault (formData s)) s) = formData s
      \<and> map formData (held_states fault (formData s) s) = [formData s])
   \<and> (formData (apply_effects (attempt fault (formData s)) s) \<noteq> formData s \<longrightarrow>
      spec_validate (formData s) = None \<and> fault = None
      \<and> formData (apply_effects (attempt fault (formData s)) s) = emptyForm)"
proof -
  have one: "spec_validate (formData s) = Some r \<longrightarrow>
      snd (handleSubmit (formData s)) = None
      \<and> formData (apply_effects (attempt fault (formData s)) s) = formData s
      \<and> map formData (held_states fault (formData s) s) = [formData s]"
    by (simp add: attempt_reject handleSubmit_reject held_states_def)
  have two: "formData (apply_effects (attempt fault (formData s)) s) \<noteq> formData s \<longrightarrow>
      spec_validate (formData s) = None \<and> fault = None
      \<and> formData (apply_effects (attempt fault (formData s)) s) = emptyForm"
  proof (cases "spec_validate (formData s)")
    case (Some r')
    then show ?thesis
      by (simp add: attempt_reject)
  next
    case None
    show ?thesis
    proof (cases fault)
      case (Some st)
      have "formData (apply_effects (attempt fault (formData s)) s) = formData s"
        by (simp add: attempt_accept [OF None] apply_effects_append Some
            formData_apply_resume_fault)
      then show ?thesis by simp
    next
      case fnone: None
      have "formData (apply_effects (attempt fault (formData s)) s) = emptyForm"
        by (simp add: attempt_accept [OF None] fnone resume_None)
      with None fnone show ?thesis by simp
    qed
  qed
  from one two show ?thesis by blast
qed

theorem C5_failed_validation_keeps_draft_witness:
  "formData (apply_effects (attempt None \<lparr>chain = ''TRON'', rpcUrl = ''https://x'', apiKey = [],
       privateKey = ''k'', toAddress = ''Tabc'', amount = ''10''\<rparr>)
     \<lparr>formData = \<lparr>chain = ''TRON'', rpcUrl = ''https://x'', apiKey = [],
       privateKey = ''k'', toAddress = ''Tabc'', amount = ''10''\<rparr>, isLoading = False\<rparr>)
    = \<lparr>chain = ''TRON'', rpcUrl = ''https://x'', apiKey = [],
       privateKey = ''k'', toAddress = ''Tabc'', amount = ''10''\<rparr>
   \<and> formData (apply_effects (attempt None \<lparr>chain = ''TRON'', rpcUrl = [], apiKey = ''key'',
       privateKey = ''k'', toAddress = ''Tabc'', amount = ''10''\<rparr>)
     \<lparr>formData = \<lparr>chain = ''TRON'', rpcUrl = [], apiKey = ''key'',
       privateKey = ''k'', toAddress = ''Tabc'', amount = ''10''\<rparr>, isLoading = False\<rparr>)
    = emptyForm"
  using C5_failed_validation_keeps_draft [of "\<lparr>formData = \<lparr>chain = ''TRON'',
       rpcUrl = ''https://x'', apiKey = [],
       privateKey = ''k'', toAddress = ''Tabc'', amount = ''10''\<rparr>, isLoading = False\<rparr>"
       ApiKeyRequired None]
    C5_failed_validation_keeps_draft [of "\<lparr>formData = \<lparr>chain = ''TRON'',
       rpcUrl = [], apiKey = ''key'',
       privateKey = ''k'', toAddress = ''Tabc'', amount = ''10''\<rparr>, isLoading = False\<rparr>"
       ApiKeyRequired None]
  by (simp add: spec_validate_def attempt_def handleSubmit_def not_str_def resume_def emptyForm_def)

section \<open>The two conditional requirements\<close>

text \<open>
  C6, as stated: in every draft state exactly one of the two requirements is active. This
  fails in the draft of a freshly mounted component, where \<^verbatim>\<open>chain\<close> is empty: neither
  \<^verbatim>\<open>rpcUrl\<close> nor \<^verbatim>\<open>apiKey\<close> is required there.
\<close>

theorem C6_neither_required_when_unset:
  "\<not> rpcUrl_required (formData mount) \<and> \<not> apiKey_required (formData mount)"
  by (simp add: rpcUrl_required_def apiKey_required_def mount_def emptyForm_def)

text \<open>
  C6, amended: in every draft at most one of the two requirements is active; exactly one
  is active if and only if \<^verbatim>\<open>chain\<close> is EVM or TRON, and none otherwise (\<^verbatim>\<open>chain\<close>
  unset or any other string); two drafts with the same \<^verbatim>\<open>chain\<close> have the same
  requirements. For a draft that passes the missing-fields rule, a requirement is active
  exactly when emptying its field gets the draft rejected with that field's message.
\<close>

theorem C6_requirement_by_network:
  "\<not> (rpcUrl_required d \<and> apiKey_required d)
   \<and> (rpcUrl_required d \<noteq> apiKey_required d) = (chain d = ''EVM'' \<or> chain d = ''TRON'')
   \<and> (chain d = chain d' \<longrightarrow>
        rpcUrl_required d = rpcUrl_required d' \<and> apiKey_required d = apiKey_required d')
   \<and> (chain d \<noteq> [] \<and> toAddress d \<noteq> [] \<and> amount d \<noteq> [] \<and> privateKey d \<noteq> [] \<longrightarrow>
        rpcUrl_required d = (toasts (fst (handleSubmit (d\<lparr>rpcUrl := []\<rparr>))) = [rpc_url_required])
        \<and> apiKey_required d = (toasts (fst (handleSubmit (d\<lparr>apiKey := []\<rparr>))) = [api_key_required]))"
proof -
  have one: "\<not> (rpcUrl_required d \<and> apiKey_required d)"
    by (auto simp add: rpcUrl_required_def apiKey_required_def)
  have two: "(rpcUrl_required d \<noteq> apiKey_required d) = (chain d = ''EVM'' \<or> chain d = ''TRON'')"
    by (auto simp add: rpcUrl_required_def apiKey_required_def)
  have three: "chain d = chain d' \<longrightarrow>
        rpcUrl_required d = rpcUrl_required d' \<and> apiKey_required d = apiKey_required d'"
    by (simp add: rpcUrl_required_def apiKey_required_def)
  have four: "chain d \<noteq> [] \<and> toAddress d \<noteq> [] \<and> amount d \<noteq> [] \<and> privateKey d \<noteq> [] \<longrightarrow>
        rpcUrl_required d = (toasts (fst (handleSubmit (d\<lparr>rpcUrl := []\<rparr>))) = [rpc_url_required])
        \<and> apiKey_required d = (toasts (fst (handleSubmit (d\<lparr>apiKey := []\<rparr>))) = [api_key_required])"
    by (auto simp add: rpcUrl_required_def apiKey_required_def handleSubmit_def not_str_def
        rpc_url_required_def api_key_required_def)
  from one two three four show ?thesis by blast
qed

theorem C6_requirement_by_network_witness:
  "rpcUrl_required \<lparr>chain = ''EVM'', rpcUrl = ''https://x'', apiKey = [], privateKey = ''k'',
       toAddress = ''0xabc'', amount = ''10''\<rparr>
   \<and> \<not> apiKey_required \<lparr>chain = ''EVM'', rpcUrl = ''https://x'', apiKey = [], privateKey = ''k'',
       toAddress = ''0xabc'', amount = ''10''\<rparr>
   \<and> rpcUrl_required \<lparr>chain = ''EVM'', rpcUrl = [], apiKey = ''z'', privateKey = [],
       toAddress = [], amount = []\<rparr>"
  using C6_requirement_by_network [of "\<lparr>chain = ''EVM'', rpcUrl = ''https://x'', apiKey = [],
       privateKey = ''k'', toAddress = ''0xabc'', amount = ''10''\<rparr>"
       "\<lparr>chain = ''EVM'', rpcUrl = [], apiKey = ''z'', privateKey = [],
       toAddress = [], amount = []\<rparr>"]
  by (auto simp add: handleSubmit_def not_str_def)

section \<open>Editing a field: what changes\<close>

text \<open>
  C8. For each of the six field names and every string, \<^verbatim>\<open>handleInputChange\<close> makes that
  field hold the string and leaves the other five fields and the loading flag as they were.
\<close>

theorem C8_setField_frame:
  "get_field fld (formData (handleInputChange fld v s)) = v
   \<and> (\<forall>g. g \<noteq> fld \<longrightarrow>
        get_field g (formData (handleInputChange fld v s)) = get_field g (formData s))
   \<and> isLoading (handleInputChange fld v s) = isLoading s"
proof -
  have one: "get_field fld (formData (handleInputChange fld v s)) = v"
    by (cases fld) (simp_all add: handleInputChange_def)
  have two: "\<forall>g. g \<noteq> fld \<longrightarrow>
        get_field g (formData (handleInputChange fld v s)) = get_field g (formData s)"
  proof (intro allI impI)
    fix g assume "g \<noteq> fld"
    then show "get_field g (formData (handleInputChange fld v s)) = get_field g (formData s)"
      by (cases fld; cases g) (simp_all add: handleInputChange_def)
  qed
  have three: "isLoading (handleInputChange fld v s) = isLoading s"
    by (simp add: handleInputChange_def)
  from one two three show ?thesis by blast
qed

theorem C8_setField_frame_witness:
  "get_field Amount (formData (handleInputChange Amount ''10'' mount)) = ''10''
   \<and> get_field Chain (formData (handleInputChange Amount ''10'' mount)) = []
   \<and> isLoading (handleInputChange Amount ''10'' mount) = False"
proof -
  have ne: "Chain \<noteq> Amount" by simp
  from C8_setField_frame [of Amount "''10''" mount] ne
  have "get_field Chain (formData (handleInputChange Amount ''10'' mount))
          = get_field Chain (formData mount)"
    by blast
  with C8_setField_frame [of Amount "''10''" mount] show ?thesis
    by (simp add: mount_def emptyForm_def)
qed

section \<open>The event system: one submission at a time\<close>

lemma run_append:
  "run (xs @ ys) sys =
     (case run xs sys of (sys', ts) \<Rightarrow> (case run ys sys' of (sys'', ts') \<Rightarrow> (sys'', ts @ ts')))"
  by (induction xs arbitrary: sys) (simp_all split: prod.splits)

lemma dispatch_Submit_accept:
  assumes "spec_validate (formData (comp sys)) = None" and "\<not> isLoading (comp sys)"
  shows "dispatch Submit sys =
           (\<lparr>comp = (comp sys)\<lparr>isLoading := True\<rparr>,
             pending = pending sys @ [\<lparr>delay_ms = 2000, captured = formData (comp sys)\<rparr>]\<rparr>, [])"
  using assms by (simp add: submit_disabled_def handleSubmit_accept)

lemma dispatch_Submit_reject:
  assumes "spec_validate (formData (comp sys)) = Some r" and "\<not> isLoading (comp sys)"
  shows "dispatch Submit sys =
           (\<lparr>comp = (comp sys)\<lparr>isLoading := False\<rparr>, pending = pending sys\<rparr>, [rejection_toast r])"
  using assms by (simp add: submit_disabled_def handleSubmit_reject)

lemma dispatch_one_in_flight:
  assumes "one_in_flight sys"
  shows "one_in_flight (fst (dispatch ev sys))"
proof (cases ev)
  case (Edit fld v)
  with assms show ?thesis
    by (simp add: one_in_flight_def handleInputChange_def)
next
  case Submit
  show ?thesis
  proof (cases "isLoading (comp sys)")
    case True
    with assms Submit show ?thesis
      by (simp add: submit_disabled_def)
  next
    case False
    with assms have p: "pending sys = []"
      by (auto simp add: one_in_flight_def)
    show ?thesis
    proof (cases "spec_validate (formData (comp sys))")
      case None
      show ?thesis
        unfolding Submit dispatch_Submit_accept [OF None False]
        by (simp add: one_in_flight_def p)
    next
      case (Some r)
      show ?thesis
        unfolding Submit dispatch_Submit_reject [OF Some False]
        by (simp add: one_in_flight_def p)
    qed
  qed
next
  case (TimerFires fault)
  show ?thesis
  proof (cases "pending sys")
    case Nil
    with assms TimerFires show ?thesis by simp
  next
    case (Cons k ks)
    with assms have "ks = []"
      by (simp add: one_in_flight_def)
    with Cons TimerFires show ?thesis
      by (simp add: one_in_flight_def)
  qed
qed

lemma fst_run_Cons: "fst (run (ev # evs) sys) = fst (run evs (fst (dispatch ev sys)))"
  by (cases "dispatch ev sys") (simp split: prod.splits)

lemma run_one_in_flight:
  "one_in_flight sys \<Longrightarrow> one_in_flight (fst (run evs sys))"
proof (induction evs arbitrary: sys)
  case Nil
  then show ?case by simp
next
  case (Cons ev evs)
  have "one_in_flight (fst (dispatch ev sys))"
    by (rule dispatch_one_in_flight [OF Cons.prems])
  then have "one_in_flight (fst (run evs (fst (dispatch ev sys))))"
    by (rule Cons.IH)
  then show ?case
    by (simp only: fst_run_Cons)
qed

lemma start_one_in_flight: "one_in_flight start"
  by (simp add: one_in_flight_def start_def)

text \<open>
  C7. In every state of the system in which the loading flag is true, activating the
  submit control changes nothing: the button is disabled, no handler runs, no state is
  written and no notification is made. In every state the form can reach from its mount,
  by any sequence of edits, submissions and timers, at most one submission is suspended,
  and the loading flag is true while one is, so the control is inert for as long as a
  submission is in flight.
\<close>

theorem C7_submit_inert_while_loading:
  "(isLoading (comp sys) \<longrightarrow> dispatch Submit sys = (sys, []) \<and> run [Submit] sys = (sys, []))
   \<and> length (pending (fst (run evs start))) \<le> 1
   \<and> (pending (fst (run evs start)) \<noteq> [] \<longrightarrow> isLoading (comp (fst (run evs start))))"
proof -
  have one: "isLoading (comp sys) \<longrightarrow> dispatch Submit sys = (sys, []) \<and> run [Submit] sys = (sys, [])"
    by (simp add: submit_disabled_def)
  have "one_in_flight (fst (run evs start))"
    by (rule run_one_in_flight [OF start_one_in_flight])
  then have two: "length (pending (fst (run evs start))) \<le> 1
      \<and> (pending (fst (run evs start)) \<noteq> [] \<longrightarrow> isLoading (comp (fst (run evs start))))"
    by (auto simp add: one_in_flight_def)
  from one two show ?thesis by blast
qed

theorem C7_submit_inert_while_loading_witness:
  "pending (fst (run [Edit Chain ''EVM'', Edit RpcUrl ''https://x'', Edit ToAddress ''0xabc'',
       Edit Amount ''10'', Edit PrivateKey ''k'', Submit] start)) \<noteq> []
   \<and> isLoading (comp (fst (run [Edit Chain ''EVM'', Edit RpcUrl ''https://x'',
       Edit ToAddress ''0xabc'', Edit Amount ''10'', Edit PrivateKey ''k'', Submit] start)))
   \<and> run [Submit] (fst (run [Edit Chain ''EVM'', Edit RpcUrl ''https://x'',
       Edit ToAddress ''0xabc'', Edit Amount ''10'', Edit PrivateKey ''k'', Submit] start))
     = (fst (run [Edit Chain ''EVM'', Edit RpcUrl ''https://x'',
       Edit ToAddress ''0xabc'', Edit Amount ''10'', Edit PrivateKey ''k'', Submit] start), [])"
proof -
  have p: "pending (fst (run [Edit Chain ''EVM'', Edit RpcUrl ''https://x'', Edit ToAddress ''0xabc'',
       Edit Amount ''10'', Edit PrivateKey ''k'', Submit] start)) \<noteq> []"
    by (simp add: start_def mount_def emptyForm_def handleInputChange_def handleSubmit_def
        not_str_def submit_disabled_def)
  from p C7_submit_inert_while_loading [of "fst (run [Edit Chain ''EVM'', Edit RpcUrl ''https://x'',
       Edit ToAddress ''0xabc'', Edit Amount ''10'', Edit PrivateKey ''k'', Submit] start)"
      "[Edit Chain ''EVM'', Edit RpcUrl ''https://x'', Edit ToAddress ''0xabc'',
       Edit Amount ''10'', Edit PrivateKey ''k'', Submit]"]
  show ?thesis by blast
qed

section \<open>The event system: a second submission\<close>

lemma run_edits:
  "pending (fst (run (map (\<lambda>(fld, v). Edit fld v) eds) sys)) = pending sys
   \<and> snd (run (map (\<lambda>(fld, v). Edit fld v) eds) sys) = []"
  by (induction eds arbitrary: sys) (simp_all split: prod.splits)

lemma dispatch_TimerFires_None:
  "pending sys = [k] \<Longrightarrow>
   dispatch (TimerFires None) sys = (start, [transaction_sent (captured k)])"
  by (simp add: resume_None start_def mount_def)

text \<open>
  C9. Take any state of the form with a valid draft, not loading and with nothing
  suspended. Submit, let the user edit fields in any way during the delay, and let the
  timer fire with no statement throwing: the one notification made is the success
  notification of the submitted draft, and the system is then exactly the freshly mounted
  one. Hence any later sequence of events, a second submission among them, gives the same
  states and the same notifications as it gives on a fresh component.
\<close>

theorem C9_second_submission_independent:
  assumes "spec_validate (formData (comp sys)) = None"
    and "\<not> isLoading (comp sys)" and "pending sys = []"
  shows "run (Submit # map (\<lambda>(fld, v). Edit fld v) eds @ [TimerFires None]) sys
           = (start, [transaction_sent (formData (comp sys))])
         \<and> run evs (fst (run (Submit # map (\<lambda>(fld, v). Edit fld v) eds @ [TimerFires None]) sys))
           = run evs start"
proof -
  let ?k = "\<lparr>delay_ms = 2000, captured = formData (comp sys)\<rparr>"
  let ?sys1 = "\<lparr>comp = (comp sys)\<lparr>isLoading := True\<rparr>, pending = [?k]\<rparr>"
  let ?eds = "map (\<lambda>(fld, v). Edit fld v) eds"
  have d1: "dispatch Submit sys = (?sys1, [])"
    using dispatch_Submit_accept [OF assms(1) assms(2)] assms(3) by simp
  obtain sys2 ts2 where r2: "run ?eds ?sys1 = (sys2, ts2)"
    by (cases "run ?eds ?sys1")
  have p2: "pending sys2 = [?k]" and t2: "ts2 = []"
    using run_edits [of eds ?sys1] r2 by simp_all
  have d3: "dispatch (TimerFires None) sys2 = (start, [transaction_sent (captured ?k)])"
    by (rule dispatch_TimerFires_None [OF p2])
  have r3: "run [TimerFires None] sys2 = (start, [transaction_sent (formData (comp sys))])"
    by (simp add: d3 del: dispatch.simps)
  have "run (?eds @ [TimerFires None]) ?sys1 = (start, [transaction_sent (formData (comp sys))])"
    by (simp add: run_append r2 r3 t2 del: run.simps)
  then have whole: "run (Submit # ?eds @ [TimerFires None]) sys
           = (start, [transaction_sent (formData (comp sys))])"
    by (simp add: d1 del: dispatch.simps)
  then show ?thesis by simp
qed

theorem C9_second_submission_independent_witness:
  "run [Submit, Edit Amount ''99'', TimerFires None]
     \<lparr>comp = \<lparr>formData = \<lparr>chain = ''EVM'', rpcUrl = ''https://x'', apiKey = [],
        privateKey = ''k'', toAddress = ''0xabc'', amount = ''10''\<rparr>, isLoading = False\<rparr>,
      pending = []\<rparr>
     = (start, [\<lparr>title = ''Transaction Sent! '' @ [CHR 0xE2, CHR 0x9C, CHR 0x85],
        description = ''Successfully sent 10 USDT on EVM'', variant = Default\<rparr>])
   \<and> run [Edit Chain ''TRON'', Submit]
       (fst (run [Submit, Edit Amount ''99'', TimerFires None]
         \<lparr>comp = \<lparr>formData = \<lparr>chain = ''EVM'', rpcUrl = ''https://x'', apiKey = [],
            privateKey = ''k'', toAddress = ''0xabc'', amount = ''10''\<rparr>, isLoading = False\<rparr>,
          pending = []\<rparr>))
     = (\<lparr>comp = \<lparr>formData = emptyForm\<lparr>chain := ''TRON''\<rparr>, isLoading = False\<rparr>, pending = []\<rparr>,
        [missing_fields])"
proof -
  let ?sys = "\<lparr>comp = \<lparr>formData = \<lparr>chain = ''EVM'', rpcUrl = ''https://x'', apiKey = [],
        privateKey = ''k'', toAddress = ''0xabc'', amount = ''10''\<rparr>, isLoading = False\<rparr>,
      pending = []\<rparr>"
  have v: "spec_validate (formData (comp ?sys)) = None"
    by (simp add: spec_validate_def)
  have l: "\<not> isLoading (comp ?sys)" and p: "pending ?sys = []"
    by simp_all
  have second: "run [Edit Chain ''TRON'', Submit] start
      = (\<lparr>comp = \<lparr>formData = emptyForm\<lparr>chain := ''TRON''\<rparr>, isLoading = False\<rparr>, pending = []\<rparr>,
         [missing_fields])"
    by (simp add: start_def mount_def emptyForm_def handleInputChange_def handleSubmit_def
        not_str_def submit_disabled_def)
  from C9_second_submission_independent [OF v l p, of "[(Amount, ''99'')]"
      "[Edit Chain ''TRON'', Submit]"] second
  show ?thesis
    by (simp add: transaction_sent_def del: run.simps dispatch.simps)
qed

end
